theory Spec2Isabelle
  imports Main "HOL-Library.Word"
begin

section \<open>remongo: a generic repository over the MongoDB driver\<close>

text \<open>
  The development embeds \<^verbatim>\<open>repository.go\<close>. The repository is a thin layer over three
  collaborators that are not part of it: the model type \<^verbatim>\<open>T\<close> with its method
  \<^verbatim>\<open>Collection()\<close>, the \<^verbatim>\<open>bson\<close> package and the \<^verbatim>\<open>mongo\<close> driver. They are taken as
  parameters (the record \<open>externals\<close> below), so every theorem holds for every behaviour
  they may have. What the repository does with them is written out call by call: every
  driver call is appended to a log, in the order the Go code makes it.
\<close>

subsection \<open>Values\<close>

type_synonym addr = nat
type_synonym bytes = "8 word list"

text \<open>
  A Go \<^verbatim>\<open>error\<close> is \<open>error option\<close>, \<open>None\<close> being \<^verbatim>\<open>nil\<close>. The code compares an
  error with the sentinel \<^verbatim>\<open>mongo.ErrNoDocuments\<close>; every other error is \<open>Err\<close> with its
  message.
\<close>

datatype error = ErrNoDocuments | Err string

text \<open>
  The values passed as \<^verbatim>\<open>interface{}\<close>. \<open>'m\<close> is the model type \<^verbatim>\<open>T\<close>, \<open>'x\<close> stands for
  every other Go value (a \<^verbatim>\<open>bson.M\<close>, a \<^verbatim>\<open>bson.D\<close> passed by value, a struct, an
  ObjectID). A \<^verbatim>\<open>bson.D\<close> is an ordered list of key/value pairs. The insert and replace
  methods only read through the pointers they are given, so there a pointer is modelled
  by its pointee, \<open>None\<close> being the nil pointer.
\<close>

type_synonym 'x bsonD = "(string \<times> 'x) list"

datatype ('m, 'x) iface =
    INil
  | IDocPtr "'x bsonD option"
  | IModelPtr "'m option"
  | IModelsPtr "'m list option"
  | IList "('m, 'x) iface list"
  | IOther 'x

text \<open>
  Destinations are written through pointers, so they live in an explicit memory: the
  objects of type \<^verbatim>\<open>T\<close>, the backing arrays of slices \<^verbatim>\<open>[]*T\<close> (each element a
  \<^verbatim>\<open>*T\<close>), and the next free address. A slice value is its header: pointer to the backing
  array, length and capacity. Go passes the header by value.
\<close>

record 'm memory =
  cells :: "addr \<rightharpoonup> 'm"
  arrays :: "addr \<rightharpoonup> addr option list"
  next_free :: addr

record slice =
  s_ptr :: "addr option"
  s_len :: nat
  s_cap :: nat

definition slice_elems :: "'m memory \<Rightarrow> slice \<Rightarrow> addr option list" where
  "slice_elems h s =
     (case s_ptr s of
        None \<Rightarrow> []
      | Some a \<Rightarrow> (case arrays h a of None \<Rightarrow> [] | Some xs \<Rightarrow> take (s_len s) xs))"

definition slice_models :: "'m memory \<Rightarrow> slice \<Rightarrow> 'm option list" where
  "slice_models h s =
     map (\<lambda>p. case p of None \<Rightarrow> None | Some a \<Rightarrow> cells h a) (slice_elems h s)"

datatype 'a outcome = Returns 'a | Panics

subsection \<open>The driver's result types\<close>

record UpdateResult =
  MatchedCount :: "64 word"
  ModifiedCount :: "64 word"
  UpsertedCount :: "64 word"

record DeleteResult =
  DeletedCount :: "64 word"

text \<open>
  Modelled from the spec: the driver's \<^verbatim>\<open>SingleResult\<close> and its method \<^verbatim>\<open>Decode\<close>, which
  are not part of the repository. The result of a single-document lookup is a structured
  result carrying either the document or an error, among them the distinguished
  "no documents matched" signal (spec, section 6); decoding "writes into [the slot] on
  success only" (spec, section 9): a result that carries an error returns it and writes
  nothing.
\<close>

record SingleResult =
  sr_err :: "error option"
  sr_rdr :: bytes

subsection \<open>The collaborators\<close>

type_synonym coll = "addr \<times> string"

text \<open>
  A driver method returning \<^verbatim>\<open>(result, err)\<close> whose result the code reads only when
  \<^verbatim>\<open>err == nil\<close> is a sum, \<open>Inl\<close> the error. \<^verbatim>\<open>Collection.Find\<close> and
  \<^verbatim>\<open>Collection.Aggregate\<close> keep the pair (cursor, error), the cursor a pointer that may be
  nil. The driver's own state (the database, its cursors) is \<open>'s\<close>; \<open>'o\<close> is an options
  struct. \<open>unmarshal_model\<close> decodes a document through a \<^verbatim>\<open>**T\<close>: it is given the pointer
  variable's value and returns the error, the variable's new value and the memory.
  \<open>cursor_All\<close> is \<^verbatim>\<open>Cursor.All\<close> given the address of a slice variable: it is given the
  variable's value and returns its new value.
\<close>

record ('m, 'x, 'o, 's) externals =
  Collection :: "'m \<Rightarrow> string"
  bson_Marshal :: "('m, 'x) iface \<Rightarrow> error + bytes"
  bson_Unmarshal :: "bytes \<Rightarrow> 'x bsonD option \<times> error option"
  unmarshal_model :: "bytes \<Rightarrow> addr option \<Rightarrow> 'm memory \<Rightarrow>
    error option \<times> addr option \<times> 'm memory"
  coll_FindOne :: "coll \<Rightarrow> ('m, 'x) iface \<Rightarrow> 's \<Rightarrow> SingleResult \<times> 's"
  coll_Find :: "coll \<Rightarrow> ('m, 'x) iface \<Rightarrow> 'o list \<Rightarrow> 's \<Rightarrow>
    (addr option \<times> error option) \<times> 's"
  coll_Aggregate :: "coll \<Rightarrow> ('m, 'x) iface \<Rightarrow> 's \<Rightarrow>
    (addr option \<times> error option) \<times> 's"
  cursor_All :: "addr option \<Rightarrow> slice \<Rightarrow> 'm memory \<Rightarrow> 's \<Rightarrow>
    (error option \<times> slice \<times> 'm memory \<times> 's) outcome"
  coll_InsertOne :: "coll \<Rightarrow> ('m, 'x) iface \<Rightarrow> 'o list \<Rightarrow> 's \<Rightarrow>
    (error + ('m, 'x) iface) \<times> 's"
  coll_InsertMany :: "coll \<Rightarrow> ('m, 'x) iface list \<Rightarrow> 'o list \<Rightarrow> 's \<Rightarrow>
    (error + ('m, 'x) iface list) \<times> 's"
  coll_ReplaceOne :: "coll \<Rightarrow> ('m, 'x) iface \<Rightarrow> ('m, 'x) iface \<Rightarrow> 'o list \<Rightarrow> 's \<Rightarrow>
    (error + UpdateResult) \<times> 's"
  coll_UpdateOne :: "coll \<Rightarrow> ('m, 'x) iface \<Rightarrow> ('m, 'x) iface \<Rightarrow> 'o list \<Rightarrow> 's \<Rightarrow>
    (error + UpdateResult) \<times> 's"
  coll_UpdateMany :: "coll \<Rightarrow> ('m, 'x) iface \<Rightarrow> ('m, 'x) iface \<Rightarrow> 'o list \<Rightarrow> 's \<Rightarrow>
    (error + UpdateResult) \<times> 's"
  coll_DeleteOne :: "coll \<Rightarrow> ('m, 'x) iface \<Rightarrow> 'o list \<Rightarrow> 's \<Rightarrow>
    (error + DeleteResult) \<times> 's"
  coll_DeleteMany :: "coll \<Rightarrow> ('m, 'x) iface \<Rightarrow> 'o list \<Rightarrow> 's \<Rightarrow>
    (error + DeleteResult) \<times> 's"

definition Decode :: "('m, 'x, 'o, 's) externals \<Rightarrow> SingleResult \<Rightarrow> addr option \<Rightarrow>
    'm memory \<Rightarrow> error option \<times> addr option \<times> 'm memory" where
  "Decode E sr p h =
     (case sr_err sr of
        Some e \<Rightarrow> (Some e, p, h)
      | None \<Rightarrow> unmarshal_model E (sr_rdr sr) p h)"

subsection \<open>The filter normalizer\<close>

text \<open>
  \<^verbatim>\<open>ToBson\<close> has the named results \<^verbatim>\<open>(doc *bson.D, err error)\<close>: the type assertion
  \<^verbatim>\<open>v.(*bson.D)\<close> succeeds on every value of that type, the nil pointer included; a
  failed \<^verbatim>\<open>Marshal\<close> returns the nil \<open>doc\<close> and the error; otherwise \<^verbatim>\<open>Unmarshal\<close> sets
  \<open>doc\<close> and its error is returned with it.
\<close>

definition ToBson :: "('m, 'x, 'o, 's) externals \<Rightarrow> ('m, 'x) iface \<Rightarrow>
    'x bsonD option \<times> error option" where
  "ToBson E v =
     (case v of
        IDocPtr r \<Rightarrow> (r, None)
      | _ \<Rightarrow>
        (case bson_Marshal E v of
           Inl err \<Rightarrow> (None, Some err)
         | Inr data \<Rightarrow> bson_Unmarshal E data))"

subsection \<open>The repository\<close>

record 'm MongoRepository =
  Model :: 'm
  Database :: addr

text \<open>
  The driver calls a method makes, with the arguments it hands over, in order. The
  collection a call targets is the database handle with the collection's name.
\<close>

datatype ('m, 'x, 'o) call =
    CallFindOne coll "('m, 'x) iface"
  | CallFind coll "('m, 'x) iface" "'o list"
  | CallAggregate coll "('m, 'x) iface"
  | CallInsertOne coll "('m, 'x) iface" "'o list"
  | CallInsertMany coll "('m, 'x) iface list" "'o list"
  | CallReplaceOne coll "('m, 'x) iface" "('m, 'x) iface" "'o list"
  | CallUpdateOne coll "('m, 'x) iface" "('m, 'x) iface" "'o list"
  | CallUpdateMany coll "('m, 'x) iface" "('m, 'x) iface" "'o list"
  | CallDeleteOne coll "('m, 'x) iface" "'o list"
  | CallDeleteMany coll "('m, 'x) iface" "'o list"


text \<open>The filter a call hands to the driver, for the calls that take one.\<close>

fun call_filter :: "('m, 'x, 'o) call \<Rightarrow> ('m, 'x) iface option" where
  "call_filter (CallFindOne _ f) = Some f"
| "call_filter (CallFind _ f _) = Some f"
| "call_filter (CallAggregate _ _) = None"
| "call_filter (CallInsertOne _ _ _) = None"
| "call_filter (CallInsertMany _ _ _) = None"
| "call_filter (CallReplaceOne _ f _ _) = Some f"
| "call_filter (CallUpdateOne _ f _ _) = Some f"
| "call_filter (CallUpdateMany _ f _ _) = Some f"
| "call_filter (CallDeleteOne _ f _) = Some f"
| "call_filter (CallDeleteMany _ f _) = Some f"

record ('m, 'x, 'o, 's) world =
  db :: 's
  mem :: "'m memory"
  log :: "('m, 'x, 'o) call list"

definition called :: "('m, 'x, 'o) call \<Rightarrow> 's \<Rightarrow> ('m, 'x, 'o, 's) world \<Rightarrow>
    ('m, 'x, 'o, 's) world" where
  "called c s w = w\<lparr>db := s, log := log w @ [c]\<rparr>"

definition GetDB :: "'m MongoRepository \<Rightarrow> addr" where
  "GetDB mr = Database mr"

definition GetCollection :: "('m, 'x, 'o, 's) externals \<Rightarrow> 'm MongoRepository \<Rightarrow> coll" where
  "GetCollection E mr = (Database mr, Collection E (Model mr))"

text \<open>
  \<^verbatim>\<open>FindOne\<close> (the parameter \<^verbatim>\<open>filter\<close> is \<open>flt\<close> here): \<open>model\<close> is the pointer \<^verbatim>\<open>*T\<close>; \<^verbatim>\<open>Decode\<close> is given \<^verbatim>\<open>&model\<close>, the address
  of the parameter, so the value it leaves in the parameter is lost on return. The
  options are not handed to the driver.
\<close>

definition FindOne :: "('m, 'x, 'o, 's) externals \<Rightarrow> 'm MongoRepository \<Rightarrow> addr option \<Rightarrow>
    ('m, 'x) iface \<Rightarrow> 'o list \<Rightarrow> ('m, 'x, 'o, 's) world \<Rightarrow>
    error option \<times> ('m, 'x, 'o, 's) world" where
  "FindOne E mr model flt opts w =
     (case ToBson E flt of
        (bson, Some err) \<Rightarrow> (Some err, w)
      | (bson, None) \<Rightarrow>
        (let c = GetCollection E mr;
             (res, s1) = coll_FindOne E c (IDocPtr bson) (db w);
             w1 = called (CallFindOne c (IDocPtr bson)) s1 w;
             (err, model', h) = Decode E res model (mem w1);
             w2 = w1\<lparr>mem := h\<rparr>
         in (case err of
               Some e \<Rightarrow> if e = ErrNoDocuments then (None, w2) else (Some e, w2)
             | None \<Rightarrow> (None, w2))))"










subsection \<open>Sequences of calls\<close>





subsection \<open>A reference driver\<close>

text \<open>
  One concrete set of collaborators, on which the theorems are instantiated: a database
  with a single collection held in memory. A model is the bytes of its document; a filter
  \<^verbatim>\<open>{name: v}\<close> matches the documents equal to \<open>v\<close>, every other filter matches all. The
  driver encodes a model as a document and refuses to encode anything else, as the real
  one refuses a slice. \<^verbatim>\<open>Cursor.All\<close> dereferences its receiver, so it panics on the nil
  cursor; it decodes into the slots the variable's slice already has and moves to a fresh
  backing array when the documents outnumber them.
\<close>

record mdb =
  docs :: "bytes list"
  open_cursor :: "bytes list"

definition matches :: "(bytes, bytes) iface \<Rightarrow> bytes \<Rightarrow> bool" where
  "matches f d = (case f of IDocPtr (Some [(k, v)]) \<Rightarrow> v = d | _ \<Rightarrow> True)"

definition ref_Marshal :: "(bytes, bytes) iface \<Rightarrow> error + bytes" where
  "ref_Marshal v =
     (case v of
        IOther x \<Rightarrow> Inr x
      | IModelPtr (Some m) \<Rightarrow> Inr m
      | _ \<Rightarrow> Inl (Err ''cannot marshal''))"

definition ref_unmarshal_model :: "bytes \<Rightarrow> addr option \<Rightarrow> bytes memory \<Rightarrow>
    error option \<times> addr option \<times> bytes memory" where
  "ref_unmarshal_model raw p h =
     (case p of
        Some a \<Rightarrow> (None, Some a, h\<lparr>cells := (cells h)(a \<mapsto> raw)\<rparr>)
      | None \<Rightarrow>
        (None, Some (next_free h),
         h\<lparr>cells := (cells h)(next_free h \<mapsto> raw), next_free := Suc (next_free h)\<rparr>))"

fun decode_all :: "bytes list \<Rightarrow> addr option list \<Rightarrow> bytes memory \<Rightarrow>
    addr option list \<times> bytes memory" where
  "decode_all [] slots h = ([], h)"
| "decode_all (d # ds) slots h =
     (let (e, p, h1) = ref_unmarshal_model d (case slots of [] \<Rightarrow> None | q # _ \<Rightarrow> q) h;
          (ps, h2) = decode_all ds (tl slots) h1
      in (p # ps, h2))"

definition ref_All :: "addr option \<Rightarrow> slice \<Rightarrow> bytes memory \<Rightarrow> mdb \<Rightarrow>
    (error option \<times> slice \<times> bytes memory \<times> mdb) outcome" where
  "ref_All cursor sl h s =
     (case cursor of
        None \<Rightarrow> Panics
      | Some c \<Rightarrow>
        (let (ps, h1) = decode_all (open_cursor s) (slice_elems h sl) h;
             n = length ps
         in (case s_ptr sl of
               None \<Rightarrow>
                 Returns (None, \<lparr>s_ptr = Some (next_free h1), s_len = n, s_cap = n\<rparr>,
                   h1\<lparr>arrays := (arrays h1)(next_free h1 \<mapsto> ps),
                      next_free := Suc (next_free h1)\<rparr>,
                   s\<lparr>open_cursor := []\<rparr>)
             | Some a \<Rightarrow>
                 if n \<le> s_len sl
                 then Returns (None, sl\<lparr>s_len := n\<rparr>,
                   h1\<lparr>arrays := (arrays h1)(a \<mapsto>
                        ps @ drop n (case arrays h1 a of None \<Rightarrow> [] | Some ys \<Rightarrow> ys))\<rparr>,
                   s\<lparr>open_cursor := []\<rparr>)
                 else Returns (None, \<lparr>s_ptr = Some (next_free h1), s_len = n, s_cap = n\<rparr>,
                   h1\<lparr>arrays := (arrays h1)(next_free h1 \<mapsto> ps),
                      next_free := Suc (next_free h1)\<rparr>,
                   s\<lparr>open_cursor := []\<rparr>))))"

definition ref_count :: "(bytes, bytes) iface \<Rightarrow> mdb \<Rightarrow> 64 word" where
  "ref_count f s = of_nat (length (filter (matches f) (docs s)))"

definition ref_insert :: "(bytes, bytes) iface list \<Rightarrow> mdb \<Rightarrow>
    (error + (bytes, bytes) iface list) \<times> mdb" where
  "ref_insert ds s =
     (if list_all (\<lambda>d. case d of IModelPtr (Some m) \<Rightarrow> True | _ \<Rightarrow> False) ds
      then (Inr (map (\<lambda>d. case d of IModelPtr (Some m) \<Rightarrow> IOther m | _ \<Rightarrow> INil) ds),
            s\<lparr>docs := docs s @
              concat (map (\<lambda>d. case d of IModelPtr (Some m) \<Rightarrow> [m] | _ \<Rightarrow> []) ds)\<rparr>)
      else (Inl (Err ''cannot transform value to a BSON document''), s))"

definition ref :: "(bytes, bytes, nat, mdb) externals" where
  "ref =
     \<lparr>Collection = (\<lambda>m. ''users''),
      bson_Marshal = ref_Marshal,
      bson_Unmarshal = (\<lambda>b. (Some [(''name'', b)], None)),
      unmarshal_model = ref_unmarshal_model,
      coll_FindOne = (\<lambda>c f s.
        (case filter (matches f) (docs s) of
           [] \<Rightarrow> \<lparr>sr_err = Some ErrNoDocuments, sr_rdr = []\<rparr>
         | d # _ \<Rightarrow> \<lparr>sr_err = None, sr_rdr = d\<rparr>, s)),
      coll_Find = (\<lambda>c f opts s.
        ((Some 1, None), s\<lparr>open_cursor := filter (matches f) (docs s)\<rparr>)),
      coll_Aggregate = (\<lambda>c p s. ((Some 2, None), s)),
      cursor_All = ref_All,
      coll_InsertOne = (\<lambda>c d opts s.
        (case ref_insert [d] s of
           (Inr (i # _), s1) \<Rightarrow> (Inr i, s1)
         | (Inr [], s1) \<Rightarrow> (Inl (Err ''no document''), s1)
         | (Inl e, s1) \<Rightarrow> (Inl e, s1))),
      coll_InsertMany = (\<lambda>c ds opts s. ref_insert ds s),
      coll_ReplaceOne = (\<lambda>c f d opts s.
        (Inr \<lparr>MatchedCount = ref_count f s, ModifiedCount = ref_count f s,
              UpsertedCount = 0\<rparr>, s)),
      coll_UpdateOne = (\<lambda>c f u opts s.
        (Inr \<lparr>MatchedCount = ref_count f s, ModifiedCount = ref_count f s,
              UpsertedCount = 0\<rparr>, s)),
      coll_UpdateMany = (\<lambda>c f u opts s.
        (Inr \<lparr>MatchedCount = ref_count f s, ModifiedCount = ref_count f s,
              UpsertedCount = 0\<rparr>, s)),
      coll_DeleteOne = (\<lambda>c f opts s.
        (Inr \<lparr>DeletedCount = ref_count f s\<rparr>,
         s\<lparr>docs := filter (\<lambda>d. \<not> matches f d) (docs s)\<rparr>)),
      coll_DeleteMany = (\<lambda>c f opts s.
        (Inr \<lparr>DeletedCount = ref_count f s\<rparr>,
         s\<lparr>docs := filter (\<lambda>d. \<not> matches f d) (docs s)\<rparr>))\<rparr>"

text \<open>The reference driver with a \<^verbatim>\<open>Collection.Find\<close> that fails: nil cursor and an error.\<close>

definition ref_find_fails :: "(bytes, bytes, nat, mdb) externals" where
  "ref_find_fails =
     ref\<lparr>coll_Find := (\<lambda>c f opts s. ((None, Some (Err ''connection refused'')), s))\<rparr>"

definition empty_memory :: "bytes memory" where
  "empty_memory = \<lparr>cells = Map.empty, arrays = Map.empty, next_free = 1\<rparr>"

definition users :: "bytes MongoRepository" where
  "users = \<lparr>Model = [], Database = 7\<rparr>"

definition world0 :: "bytes list \<Rightarrow> (bytes, bytes, nat, mdb) world" where
  "world0 ds = \<lparr>db = \<lparr>docs = ds, open_cursor = []\<rparr>, mem = empty_memory, log = []\<rparr>"


section \<open>Properties\<close>

subsection \<open>What each method adds to the log\<close>


















subsection \<open>The filter normalizer\<close>

text \<open>
  C6. A value that already has the canonical type \<^verbatim>\<open>*bson.D\<close> (the type \<^verbatim>\<open>ToBson\<close>
  returns) is returned as it is, with no error, whatever the \<^verbatim>\<open>bson\<close> package does.
\<close>

theorem ToBson_identity: "ToBson E (IDocPtr r) = (r, None)"
  by (simp add: ToBson_def)

text \<open>
  C7. Normalization is idempotent: when \<^verbatim>\<open>ToBson\<close> succeeds on a value, applying it to
  the document it returned gives the same result as applying it once.
\<close>

theorem ToBson_idempotent:
  assumes "ToBson E v = (doc, None)"
  shows "ToBson E (IDocPtr doc) = ToBson E v"
  using assms by (simp add: ToBson_def)

theorem ToBson_idempotent_witness:
  "ToBson ref (IOther [1, 2]) = (Some [(''name'', [1, 2])], None)
   \<and> ToBson ref (IDocPtr (Some [(''name'', [1, 2])])) = ToBson ref (IOther [1, 2])"
proof -
  have h: "ToBson ref (IOther [1, 2]) = (Some [(''name'', [1, 2])], None)"
    by (simp add: ToBson_def ref_def ref_Marshal_def)
  show ?thesis using h ToBson_idempotent [OF h] by simp
qed

subsection \<open>FindOne\<close>

text \<open>
  C5. When the filter normalizes and the driver's lookup carries the signal
  \<^verbatim>\<open>mongo.ErrNoDocuments\<close> (the filter matches no document), \<^verbatim>\<open>FindOne\<close> returns the nil
  error and the memory is what it was before the call: the caller's model holds the
  value it held.
\<close>

theorem FindOne_no_match:
  assumes "ToBson E flt = (bson, None)"
    and "sr_err (fst (coll_FindOne E (GetCollection E mr) (IDocPtr bson) (db w))) =
      Some ErrNoDocuments"
  shows "fst (FindOne E mr model flt opts w) = None
     \<and> mem (snd (FindOne E mr model flt opts w)) = mem w"
proof -
  obtain res s1 where r: "coll_FindOne E (GetCollection E mr) (IDocPtr bson) (db w) = (res, s1)"
    by (cases "coll_FindOne E (GetCollection E mr) (IDocPtr bson) (db w)")
  with assms(2) have e: "sr_err res = Some ErrNoDocuments" by simp
  show ?thesis using assms(1) r e by (simp add: FindOne_def Decode_def called_def)
qed

theorem FindOne_no_match_witness:
  "ToBson ref (IOther [2]) = (Some [(''name'', [2])], None)
   \<and> sr_err (fst (coll_FindOne ref (GetCollection ref users) (IDocPtr (Some [(''name'', [2])]))
        (db (world0 [[1]])))) = Some ErrNoDocuments
   \<and> fst (FindOne ref users (Some 3) (IOther [2]) [] (world0 [[1]])) = None
   \<and> mem (snd (FindOne ref users (Some 3) (IOther [2]) [] (world0 [[1]]))) = mem (world0 [[1]])"
proof -
  have h1: "ToBson ref (IOther [2]) = (Some [(''name'', [2])], None)"
    by (simp add: ToBson_def ref_def ref_Marshal_def)
  have h2: "sr_err (fst (coll_FindOne ref (GetCollection ref users)
        (IDocPtr (Some [(''name'', [2])])) (db (world0 [[1]])))) = Some ErrNoDocuments"
    by (simp add: ref_def world0_def matches_def)
  show ?thesis using h1 h2 FindOne_no_match [OF h1 h2, of "Some 3" "[]"] by simp
qed

subsection \<open>UpdateMany\<close>


subsection \<open>The bound collection\<close>



end
